theory Spec2Isabelle
  imports Complex_Main
begin

section \<open>Tensor elements\<close>

text \<open>
  The tensors of \<^verbatim>\<open>deepk\<close> hold IEEE floating-point numbers. An element is modelled as
  an exact rational or one of the three special values; the finite part computes without
  rounding error and without overflow, the special values follow IEEE 754. There is one
  zero, treated as \<open>+0\<close>: every divisor the code builds is an absolute value or a
  difference of Python floats.
\<close>

datatype fl = Fin rat | PInf | NInf | NaN

fun fl_add :: "fl \<Rightarrow> fl \<Rightarrow> fl" where
  "fl_add NaN y = NaN"
| "fl_add x NaN = NaN"
| "fl_add (Fin a) (Fin b) = Fin (a + b)"
| "fl_add (Fin a) PInf = PInf"
| "fl_add (Fin a) NInf = NInf"
| "fl_add PInf NInf = NaN"
| "fl_add PInf y = PInf"
| "fl_add NInf PInf = NaN"
| "fl_add NInf y = NInf"

fun fl_sub :: "fl \<Rightarrow> fl \<Rightarrow> fl" where
  "fl_sub NaN y = NaN"
| "fl_sub x NaN = NaN"
| "fl_sub (Fin a) (Fin b) = Fin (a - b)"
| "fl_sub (Fin a) PInf = NInf"
| "fl_sub (Fin a) NInf = PInf"
| "fl_sub PInf PInf = NaN"
| "fl_sub PInf y = PInf"
| "fl_sub NInf NInf = NaN"
| "fl_sub NInf y = NInf"

fun fl_abs :: "fl \<Rightarrow> fl" where
  "fl_abs (Fin a) = Fin \<bar>a\<bar>"
| "fl_abs PInf = PInf"
| "fl_abs NInf = PInf"
| "fl_abs NaN = NaN"

fun fl_mul :: "fl \<Rightarrow> fl \<Rightarrow> fl" where
  "fl_mul NaN y = NaN"
| "fl_mul x NaN = NaN"
| "fl_mul (Fin a) (Fin b) = Fin (a * b)"
| "fl_mul (Fin a) PInf = (if a = 0 then NaN else if 0 < a then PInf else NInf)"
| "fl_mul (Fin a) NInf = (if a = 0 then NaN else if 0 < a then NInf else PInf)"
| "fl_mul PInf (Fin b) = (if b = 0 then NaN else if 0 < b then PInf else NInf)"
| "fl_mul NInf (Fin b) = (if b = 0 then NaN else if 0 < b then NInf else PInf)"
| "fl_mul PInf PInf = PInf"
| "fl_mul PInf NInf = NInf"
| "fl_mul NInf PInf = NInf"
| "fl_mul NInf NInf = PInf"

fun fl_div :: "fl \<Rightarrow> fl \<Rightarrow> fl" where
  "fl_div NaN y = NaN"
| "fl_div x NaN = NaN"
| "fl_div (Fin a) (Fin b) =
     (if b = 0 then (if a = 0 then NaN else if 0 < a then PInf else NInf)
      else Fin (a / b))"
| "fl_div (Fin a) PInf = Fin 0"
| "fl_div (Fin a) NInf = Fin 0"
| "fl_div PInf (Fin b) = (if b < 0 then NInf else PInf)"
| "fl_div NInf (Fin b) = (if b < 0 then PInf else NInf)"
| "fl_div PInf y = NaN"
| "fl_div NInf y = NaN"

text \<open>The order on elements other than \<open>NaN\<close>.\<close>

fun fl_less :: "fl \<Rightarrow> fl \<Rightarrow> bool" where
  "fl_less NaN y = False"
| "fl_less x NaN = False"
| "fl_less (Fin a) (Fin b) = (a < b)"
| "fl_less (Fin a) PInf = True"
| "fl_less (Fin a) NInf = False"
| "fl_less PInf y = False"
| "fl_less NInf NInf = False"
| "fl_less NInf y = True"

text \<open>\<^verbatim>\<open>x != y\<close> on floats: \<open>NaN\<close> differs from everything, itself included.\<close>

fun fl_ne :: "fl \<Rightarrow> fl \<Rightarrow> bool" where
  "fl_ne NaN y = True"
| "fl_ne x NaN = True"
| "fl_ne (Fin a) (Fin b) = (a \<noteq> b)"
| "fl_ne PInf PInf = False"
| "fl_ne NInf NInf = False"
| "fl_ne x y = True"

text \<open>\<^verbatim>\<open>torch.round\<close>: to the nearest integer, halves to the even one.\<close>

definition round_half_even :: "rat \<Rightarrow> int" where
  "round_half_even q =
     (let f = \<lfloor>q\<rfloor>; r = q - of_int f
      in if r < 1 / 2 then f else if 1 / 2 < r then f + 1
         else if even f then f else f + 1)"

fun fl_round :: "fl \<Rightarrow> fl" where
  "fl_round (Fin a) = Fin (of_int (round_half_even a))"
| "fl_round x = x"

section \<open>Tensor reductions\<close>

datatype value_error = EmptyMax | UnequalSpacing "fl list"

datatype error = AssertionError string | RuntimeError | IndexError | ValueError value_error

text \<open>\<^verbatim>\<open>torch.max\<close> of all elements: \<open>NaN\<close> propagates, and a tensor without
  elements raises \<^verbatim>\<open>RuntimeError\<close>.\<close>

definition fl_max2 :: "fl \<Rightarrow> fl \<Rightarrow> fl" where
  "fl_max2 x y = (if x = NaN then NaN else if y = NaN then NaN else if fl_less x y then y else x)"

fun torch_max :: "fl list \<Rightarrow> error + fl" where
  "torch_max [] = Inl RuntimeError"
| "torch_max (x # xs) = Inr (foldl fl_max2 x xs)"

text \<open>\<^verbatim>\<open>torch.mean\<close>: the sum over the number of elements; \<open>0/0 = NaN\<close> for none.\<close>

definition torch_mean :: "fl list \<Rightarrow> fl" where
  "torch_mean xs = fl_div (foldl fl_add (Fin 0) xs) (Fin (of_nat (length xs)))"

section \<open>Error metrics (\<^verbatim>\<open>deepk/errors.py\<close>)\<close>

text \<open>
  A tensor argument is given by the list of its elements in row-major order; the two
  arguments have the same shape, so the same length. Elementwise arithmetic, boolean
  masking and the mean of all elements do not depend on the shape.
\<close>

definition anae_ratios :: "fl list \<Rightarrow> fl list \<Rightarrow> fl list" where
  "anae_ratios ref new = map2 (\<lambda>r n. fl_div (fl_abs (fl_sub r n)) (fl_abs r)) ref new"

definition anae :: "fl list \<Rightarrow> fl list \<Rightarrow> fl" where
  "anae ref new =
     (let anae = anae_ratios ref new
      in fl_mul (Fin 100) (torch_mean (filter (\<lambda>x. fl_ne x PInf) anae)))"

definition naae :: "fl list \<Rightarrow> fl list \<Rightarrow> fl" where
  "naae ref new =
     fl_div (fl_mul (Fin 100) (torch_mean (map2 (\<lambda>r n. fl_abs (fl_sub r n)) ref new)))
            (torch_mean (map fl_abs ref))"

text \<open>Rounding a percentage to one decimal, as the example of the docstrings does.\<close>

definition round1 :: "fl \<Rightarrow> fl" where
  "round1 x = fl_div (fl_round (fl_mul x (Fin 10))) (Fin 10)"

text \<open>
  The metric as the specification words it: the mean of the normalised deviations over
  exactly the positions whose reference is nonzero, in percent.
\<close>

definition anae_spec :: "fl list \<Rightarrow> fl list \<Rightarrow> fl" where
  "anae_spec ref new =
     fl_mul (Fin 100)
       (torch_mean (map (\<lambda>(r, n). fl_div (fl_abs (fl_sub r n)) (fl_abs r))
                        (filter (\<lambda>(r, n). fl_ne r (Fin 0)) (zip ref new))))"

text \<open>The positions that enter the mean, and the positions whose reference is nonzero.\<close>

definition averaged_positions :: "fl list \<Rightarrow> fl list \<Rightarrow> nat list" where
  "averaged_positions ref new =
     filter (\<lambda>i. fl_ne (anae_ratios ref new ! i) PInf) [0..<length ref]"

definition nonzero_positions :: "fl list \<Rightarrow> nat list" where
  "nonzero_positions ref = filter (\<lambda>i. fl_ne (ref ! i) (Fin 0)) [0..<length ref]"

section \<open>Data handler (\<^verbatim>\<open>deepk/data.py\<close>)\<close>

text \<open>
  Modelled from the spec: \<^verbatim>\<open>utils._tensorize\<close> is not among the sources. The
  validation and test splits are optional and their lengths are compared in the size
  checks, so an absent argument becomes a tensor without rows; a given argument is taken
  as the tensor it denotes (rows of equal length, elements already of the working type).
\<close>

definition tensorize :: "'a list option \<Rightarrow> 'a list" where
  "tensorize arg = (case arg of None \<Rightarrow> [] | Some xs \<Rightarrow> xs)"

text \<open>
  Modelled from the spec: \<^verbatim>\<open>utils._scale\<close> is not among the sources. The scale is a
  ``normalization divisor'' and a ``time unit'': every element is divided by it, in a
  vector and in a matrix alike.
\<close>

definition scale :: "fl list \<Rightarrow> fl \<Rightarrow> fl list" where
  "scale t s = map (\<lambda>x. fl_div x s) t"

definition scale2d :: "fl list list \<Rightarrow> fl \<Rightarrow> fl list list" where
  "scale2d X s = map (\<lambda>row. scale row s) X"

text \<open>
  Modelled from the spec: \<^verbatim>\<open>utils._shift\<close> is not among the sources. The shift is the
  ``offset making training time start at zero'': it is subtracted from every element.
\<close>

definition shift :: "fl list \<Rightarrow> fl \<Rightarrow> fl list" where
  "shift t s = map (\<lambda>x. fl_sub x s) t"

text \<open>The message of the size assertions, an f-string with the two lengths.\<close>

fun show_nat :: "nat \<Rightarrow> string" where
  "show_nat n =
     (if n < 10 then [''0123456789'' ! n]
      else show_nat (n div 10) @ [''0123456789'' ! (n mod 10)])"

declare show_nat.simps [simp del]

definition size_msg :: "string \<Rightarrow> string \<Rightarrow> nat \<Rightarrow> nat \<Rightarrow> string" where
  "size_msg a b m n =
     ''Expected '' @ [CHR 0x27] @ a @ [CHR 0x27] @ '' and '' @ [CHR 0x27] @ b @ [CHR 0x27]
     @ '' to have same length of 1st dimension, instead found '' @ show_nat m
     @ '' and '' @ show_nat n"

text \<open>
  The keys of \<^verbatim>\<open>self.dts\<close> are Python floats. A dictionary matches a key by identity
  or by \<^verbatim>\<open>==\<close>; every difference is a new float object and \<open>NaN == NaN\<close> is false, so
  a \<open>NaN\<close> difference never matches an earlier key. The key of the \<open>i\<close>-th difference
  therefore carries \<open>i\<close> when the difference is \<open>NaN\<close>.
\<close>

datatype fkey = KNum fl | KNaN nat

definition mk_key :: "nat \<Rightarrow> fl \<Rightarrow> fkey" where
  "mk_key i d = (if d = NaN then KNaN i else KNum d)"

fun key_val :: "fkey \<Rightarrow> fl" where
  "key_val (KNum d) = d"
| "key_val (KNaN i) = NaN"

text \<open>\<^verbatim>\<open>dts[k] += 1\<close> on a \<^verbatim>\<open>defaultdict(int)\<close>, the table in insertion order.\<close>

fun dts_incr :: "'k \<Rightarrow> ('k \<times> nat) list \<Rightarrow> ('k \<times> nat) list" where
  "dts_incr k [] = [(k, 1)]"
| "dts_incr k ((k', c) # rest) =
     (if k = k' then (k', c + 1) # rest else (k', c) # dts_incr k rest)"

text \<open>
  The loop over \<^verbatim>\<open>range(len(self.ttr)-1)\<close> that fills the table with the differences
  \<^verbatim>\<open>ttr[i+1] - ttr[i]\<close>; the range is empty for fewer than two samples.
\<close>

definition diff_at :: "fl list \<Rightarrow> nat \<Rightarrow> fl" where
  "diff_at t i = fl_sub (t ! (i + 1)) (t ! i)"

definition find_dts :: "fl list \<Rightarrow> (fkey \<times> nat) list" where
  "find_dts t =
     foldl (\<lambda>tbl i. dts_incr (mk_key i (diff_at t i)) tbl) [] [0..<length t - 1]"

text \<open>\<^verbatim>\<open>max(dts, key=dts.get)\<close>: the first key of the greatest count;
  \<^verbatim>\<open>ValueError\<close> on an empty table.\<close>

definition max_step :: "'k \<times> nat \<Rightarrow> 'k \<times> nat \<Rightarrow> 'k \<times> nat" where
  "max_step best kc = (if snd best < snd kc then kc else best)"

fun py_max_key :: "('k \<times> nat) list \<Rightarrow> error + 'k" where
  "py_max_key [] = Inl (ValueError EmptyMax)"
| "py_max_key (kc # rest) = Inr (fst (foldl max_step kc rest))"

text \<open>
  The differences collected into \<^verbatim>\<open>dts_set\<close>. A Python set equals \<^verbatim>\<open>{1}\<close> exactly
  when it has an element and all its elements equal 1; a \<open>NaN\<close> among them rules that
  out, as it does for the set of the modelled differences.
\<close>

definition ttr_diffs :: "fl list \<Rightarrow> fl list" where
  "ttr_diffs t = map (diff_at t) [0..<length t - 1]"

text \<open>
  The handler and its constructor. The configuration module is not among the sources:
  the flag \<^verbatim>\<open>cfg.normalize_Xdata\<close> is the first argument, and the element type and
  device it names play no part here. Each \<^verbatim>\<open>raise\<close> and failed \<^verbatim>\<open>assert\<close> is a
  result \<open>Inl\<close>, in the order of the statements.
\<close>

record DataHandler =
  Xtr :: "fl list list"
  Xva :: "fl list list"
  Xte :: "fl list list"
  ttr :: "fl list"
  tva :: "fl list"
  tte :: "fl list"
  Xscale :: fl
  tshift :: fl
  dts :: "(fkey \<times> nat) list"
  tscale :: fl

definition DataHandler_init ::
  "bool \<Rightarrow> fl list list \<Rightarrow> fl list \<Rightarrow> fl list list option \<Rightarrow> fl list option
   \<Rightarrow> fl list list option \<Rightarrow> fl list option \<Rightarrow> error + DataHandler" where
  "DataHandler_init normalize_Xdata Xtr_arg ttr_arg Xva_arg tva_arg Xte_arg tte_arg =
     (let Xtr0 = tensorize (Some Xtr_arg); Xva0 = tensorize Xva_arg; Xte0 = tensorize Xte_arg;
          ttr0 = tensorize (Some ttr_arg); tva0 = tensorize tva_arg; tte0 = tensorize tte_arg
      in if length Xtr0 \<noteq> length ttr0
         then Inl (AssertionError (size_msg ''Xtr'' ''ttr'' (length Xtr0) (length ttr0)))
         else if length Xva0 \<noteq> length tva0
         then Inl (AssertionError (size_msg ''Xva'' ''tva'' (length Xva0) (length tva0)))
         else if length Xte0 \<noteq> length tte0
         then Inl (AssertionError (size_msg ''Xte'' ''tte'' (length Xte0) (length tte0)))
         else
           case torch_max (map fl_abs (concat Xtr0)) of
             Inl e \<Rightarrow> Inl e
           | Inr xscale \<Rightarrow>
               let Xtr1 = (if normalize_Xdata then scale2d Xtr0 xscale else Xtr0);
                   Xva1 = (if normalize_Xdata then scale2d Xva0 xscale else Xva0);
                   Xte1 = (if normalize_Xdata then scale2d Xte0 xscale else Xte0)
               in (case ttr0 of
                    [] \<Rightarrow> Inl IndexError
                  | t0 # _ \<Rightarrow>
                      let ttr1 = shift ttr0 t0; tva1 = shift tva0 t0; tte1 = shift tte0 t0;
                          tbl = find_dts ttr1
                      in (case py_max_key tbl of
                           Inl e \<Rightarrow> Inl e
                         | Inr k \<Rightarrow>
                             let ts = key_val k;
                                 ttr2 = scale ttr1 ts; tva2 = scale tva1 ts; tte2 = scale tte1 ts;
                                 ttr3 = map fl_round ttr2
                             in if set (ttr_diffs ttr3) \<noteq> {Fin 1}
                                then Inl (ValueError (UnequalSpacing ttr_arg))
                                else Inr \<lparr>Xtr = Xtr1, Xva = Xva1, Xte = Xte1,
                                          ttr = ttr3, tva = tva2, tte = tte2,
                                          Xscale = xscale, tshift = t0,
                                          dts = tbl, tscale = ts\<rparr>)))"

text \<open>
  The vocabulary in which the most frequent spacing is stated, in the words of the
  specification: the training times shifted so that the first is zero, the differences
  between consecutive values of a time vector, the keys of these differences in order,
  and the count that a table holds for a key.
\<close>

definition shifted_times :: "fl list \<Rightarrow> fl list" where
  "shifted_times t = map (\<lambda>x. fl_sub x (hd t)) t"

definition spacings :: "fl list \<Rightarrow> fl list" where
  "spacings t = map (\<lambda>i. fl_sub (t ! (i + 1)) (t ! i)) [0..<length t - 1]"

definition diff_keys :: "fl list \<Rightarrow> fkey list" where
  "diff_keys t = map (\<lambda>i. mk_key i (spacings t ! i)) [0..<length (spacings t)]"

definition cnt :: "('k \<times> nat) list \<Rightarrow> 'k \<Rightarrow> nat" where
  "cnt tbl k = (case map_of tbl k of None \<Rightarrow> 0 | Some c \<Rightarrow> c)"

section \<open>Properties of the error metrics\<close>

lemma fl_add_NaN_right [simp]: "fl_add x NaN = NaN"
  by (cases x) simp_all

lemma foldl_fl_add_NaN: "foldl fl_add NaN xs = NaN"
  by (induction xs) simp_all

lemma foldl_fl_add_has_NaN: "NaN \<in> set xs \<Longrightarrow> foldl fl_add a xs = NaN"
  by (induction xs arbitrary: a) (auto simp: foldl_fl_add_NaN)

lemma torch_mean_has_NaN: "NaN \<in> set xs \<Longrightarrow> torch_mean xs = NaN"
  by (simp add: torch_mean_def foldl_fl_add_has_NaN)

lemma foldl_fl_add_zeros: "\<forall>x\<in>set xs. x = Fin 0 \<Longrightarrow> foldl fl_add (Fin 0) xs = Fin 0"
  by (induction xs) simp_all

lemma anae_ratios_nth:
  "length ref = length new \<Longrightarrow> i < length ref \<Longrightarrow>
   anae_ratios ref new ! i = fl_div (fl_abs (fl_sub (ref ! i) (new ! i))) (fl_abs (ref ! i))"
  by (simp add: anae_ratios_def)

lemma length_anae_ratios:
  "length ref = length new \<Longrightarrow> length (anae_ratios ref new) = length ref"
  by (simp add: anae_ratios_def)

text \<open>
  C2: \<^verbatim>\<open>anae(ref, new)\<close> is 100 times the mean of \<open>|ref\<^sub>i - new\<^sub>i| / |ref\<^sub>i|\<close> over
  exactly the positions with a nonzero reference. The code drops the ratios equal to
  \<open>inf\<close> only: on the example of the docstring with the third entry of \<^verbatim>\<open>new\<close> set to
  the reference value \<open>0\<close>, the ratio \<open>0/0 = NaN\<close> stays in the mean and the result is
  \<open>NaN\<close>, where the mean over the nonzero references is 10 percent.
\<close>

theorem anae_zero_reference_not_ignored:
  "anae [Fin (- 1 / 10), Fin (2 / 10), Fin 0, Fin 100, Fin 200, Fin 300]
        [Fin (- 11 / 100), Fin (15 / 100), Fin 0, Fin 105, Fin 210, Fin 285] = NaN
   \<and> anae_spec [Fin (- 1 / 10), Fin (2 / 10), Fin 0, Fin 100, Fin 200, Fin 300]
        [Fin (- 11 / 100), Fin (15 / 100), Fin 0, Fin 105, Fin 210, Fin 285] = Fin 10"
  by code_simp

text \<open>
  C4: for \<^verbatim>\<open>ref = [[-0.1, 0.2, 0], [100, 200, 300]]\<close> and
  \<^verbatim>\<open>new = [[-0.11, 0.15, 0.01], [105, 210, 285]]\<close>, ANAE rounded to one decimal is
  10.0 and NAAE rounded to one decimal is 5.0, both in percent.
\<close>

theorem anae_naae_example:
  "round1 (anae (concat [[Fin (- 1 / 10), Fin (2 / 10), Fin 0], [Fin 100, Fin 200, Fin 300]])
             (concat [[Fin (- 11 / 100), Fin (15 / 100), Fin (1 / 100)],
                      [Fin 105, Fin 210, Fin 285]])) = Fin 10
   \<and> round1 (naae (concat [[Fin (- 1 / 10), Fin (2 / 10), Fin 0], [Fin 100, Fin 200, Fin 300]])
               (concat [[Fin (- 11 / 100), Fin (15 / 100), Fin (1 / 100)],
                        [Fin 105, Fin 210, Fin 285]])) = Fin 5"
  by code_simp

text \<open>
  C5, as stated: \<^verbatim>\<open>anae(X, X)\<close> is 0 for every tensor whose averaged positions are its
  positions of nonzero reference. It fails for the tensor without elements (the mean of
  nothing is \<open>NaN\<close>) and for a tensor holding \<open>inf\<close> (\<open>inf - inf = NaN\<close>), although in both
  the averaged positions are the positions of nonzero reference.
\<close>

theorem anae_self_counterexample:
  "averaged_positions [] [] = nonzero_positions []
   \<and> anae [] [] = NaN
   \<and> averaged_positions [PInf] [PInf] = nonzero_positions [PInf]
   \<and> anae [PInf] [PInf] = NaN"
  by code_simp

text \<open>
  C5, amended: for every tensor \<open>X\<close> with at least one element, all elements finite, whose
  averaged positions are its positions of nonzero reference, \<^verbatim>\<open>anae(X, X)\<close> is exactly 0.
\<close>

theorem anae_self_zero:
  assumes "X \<noteq> []" and fin: "\<forall>x\<in>set X. \<exists>q. x = Fin q"
    and pos: "averaged_positions X X = nonzero_positions X"
  shows "anae X X = Fin 0"
proof -
  have nz: "X ! i \<noteq> Fin 0" if "i < length X" for i
  proof
    assume z: "X ! i = Fin 0"
    have "anae_ratios X X ! i = NaN"
      using that z by (simp add: anae_ratios_nth)
    then have "i \<in> set (averaged_positions X X)"
      using that by (simp add: averaged_positions_def)
    moreover have "i \<notin> set (nonzero_positions X)"
      using z by (simp add: nonzero_positions_def)
    ultimately show False using pos by simp
  qed
  have r0: "anae_ratios X X ! i = Fin 0" if "i < length X" for i
  proof -
    have "X ! i \<in> set X" using that by simp
    then obtain q where q: "X ! i = Fin q" using fin by blast
    with nz [OF that] have "q \<noteq> 0" by simp
    then show ?thesis using that q by (simp add: anae_ratios_nth)
  qed
  have all0: "\<forall>x\<in>set (anae_ratios X X). x = Fin 0"
  proof
    fix x assume "x \<in> set (anae_ratios X X)"
    then obtain i where "i < length (anae_ratios X X)" "anae_ratios X X ! i = x"
      unfolding in_set_conv_nth by blast
    then show "x = Fin 0" using r0 [of i] by (simp add: length_anae_ratios)
  qed
  then have f: "filter (\<lambda>x. fl_ne x PInf) (anae_ratios X X) = anae_ratios X X"
    unfolding filter_id_conv by fastforce
  have s: "foldl fl_add (Fin 0) (anae_ratios X X) = Fin 0"
    using all0 by (rule foldl_fl_add_zeros)
  have l: "length (anae_ratios X X) \<noteq> 0"
    using assms(1) by (simp add: length_anae_ratios)
  show ?thesis
    unfolding anae_def Let_def f torch_mean_def s using l by simp
qed

theorem anae_self_zero_witness:
  "[Fin 3, Fin (- 2)] \<noteq> []
   \<and> averaged_positions [Fin 3, Fin (- 2)] [Fin 3, Fin (- 2)] = nonzero_positions [Fin 3, Fin (- 2)]
   \<and> anae [Fin 3, Fin (- 2)] [Fin 3, Fin (- 2)] = Fin 0"
proof -
  have p: "averaged_positions [Fin 3, Fin (- 2)] [Fin 3, Fin (- 2)]
           = nonzero_positions [Fin 3, Fin (- 2)]"
    by code_simp
  have f: "\<forall>x\<in>set [Fin 3, Fin (- 2)]. \<exists>q. x = Fin q" by simp
  have n: "[Fin 3, Fin (- 2)] \<noteq> []" by simp
  from anae_self_zero [OF n f p] p n show ?thesis by blast
qed

text \<open>
  C9: when some entry of \<^verbatim>\<open>ref\<close> is zero and the entry of \<^verbatim>\<open>new\<close> at the same position
  is zero too, \<^verbatim>\<open>anae(ref, new)\<close> is \<open>NaN\<close>: the ratio \<open>0/0\<close> is \<open>NaN\<close>, which differs
  from \<open>inf\<close> and stays in the mean.
\<close>

theorem anae_zero_over_zero_is_NaN:
  assumes "length ref = length new" and "i < length ref"
    and "ref ! i = Fin 0" and "new ! i = Fin 0"
  shows "anae ref new = NaN"
proof -
  have "anae_ratios ref new ! i = NaN"
    using assms by (simp add: anae_ratios_nth)
  moreover have "i < length (anae_ratios ref new)"
    using assms by (simp add: length_anae_ratios)
  ultimately have "NaN \<in> set (anae_ratios ref new)"
    by (metis nth_mem)
  then have "NaN \<in> set (filter (\<lambda>x. fl_ne x PInf) (anae_ratios ref new))"
    by simp
  then show ?thesis
    by (simp add: anae_def torch_mean_has_NaN)
qed

theorem anae_zero_over_zero_is_NaN_witness:
  "anae [Fin 5, Fin 0, Fin 2] [Fin 4, Fin 0, Fin 2] = NaN"
  using anae_zero_over_zero_is_NaN [of "[Fin 5, Fin 0, Fin 2]" "[Fin 4, Fin 0, Fin 2]" 1]
  by simp

section \<open>Properties of the data handler\<close>

lemma tensorize_Some [simp]: "tensorize (Some xs) = xs"
  by (simp add: tensorize_def)

lemma tensorize_None [simp]: "tensorize None = []"
  by (simp add: tensorize_def)

lemma init_size_ok:
  assumes "DataHandler_init nrm Xtr_arg ttr_arg Xva_arg tva_arg Xte_arg tte_arg = Inr h"
  shows "length Xtr_arg = length ttr_arg
         \<and> length (tensorize Xva_arg) = length (tensorize tva_arg)
         \<and> length (tensorize Xte_arg) = length (tensorize tte_arg)"
proof -
  have "length Xtr_arg = length ttr_arg"
    using assms unfolding DataHandler_init_def Let_def
    by (cases "length Xtr_arg = length ttr_arg") simp_all
  moreover have "length (tensorize Xva_arg) = length (tensorize tva_arg)"
    using assms calculation unfolding DataHandler_init_def Let_def
    by (cases "length (tensorize Xva_arg) = length (tensorize tva_arg)")
       simp_all
  moreover have "length (tensorize Xte_arg) = length (tensorize tte_arg)"
    using assms calculation unfolding DataHandler_init_def Let_def
    by (cases "length (tensorize Xte_arg) = length (tensorize tte_arg)")
       simp_all
  ultimately show ?thesis by simp
qed

lemma init_sized:
  assumes "length Xtr_arg = length ttr_arg"
    and "length (tensorize Xva_arg) = length (tensorize tva_arg)"
    and "length (tensorize Xte_arg) = length (tensorize tte_arg)"
  shows "DataHandler_init nrm Xtr_arg ttr_arg Xva_arg tva_arg Xte_arg tte_arg =
     (case torch_max (map fl_abs (concat Xtr_arg)) of
        Inl e \<Rightarrow> Inl e
      | Inr xscale \<Rightarrow>
         (case ttr_arg of
            [] \<Rightarrow> Inl IndexError
          | t0 # _ \<Rightarrow>
             (case py_max_key (find_dts (shift ttr_arg t0)) of
                Inl e \<Rightarrow> Inl e
              | Inr k \<Rightarrow>
                 if set (ttr_diffs (map fl_round (scale (shift ttr_arg t0) (key_val k)))) \<noteq> {Fin 1}
                 then Inl (ValueError (UnequalSpacing ttr_arg))
                 else Inr \<lparr>Xtr = (if nrm then scale2d Xtr_arg xscale else Xtr_arg),
                           Xva = (if nrm then scale2d (tensorize Xva_arg) xscale
                                  else tensorize Xva_arg),
                           Xte = (if nrm then scale2d (tensorize Xte_arg) xscale
                                  else tensorize Xte_arg),
                           ttr = map fl_round (scale (shift ttr_arg t0) (key_val k)),
                           tva = scale (shift (tensorize tva_arg) t0) (key_val k),
                           tte = scale (shift (tensorize tte_arg) t0) (key_val k),
                           Xscale = xscale, tshift = t0,
                           dts = find_dts (shift ttr_arg t0), tscale = key_val k\<rparr>)))"
  using assms unfolding DataHandler_init_def Let_def tensorize_Some
  by simp

lemma init_success:
  assumes "DataHandler_init nrm Xtr_arg ttr_arg Xva_arg tva_arg Xte_arg tte_arg = Inr h"
  shows "\<exists>xscale t0 rest k.
           length Xtr_arg = length ttr_arg
         \<and> torch_max (map fl_abs (concat Xtr_arg)) = Inr xscale
         \<and> ttr_arg = t0 # rest
         \<and> py_max_key (find_dts (shift ttr_arg t0)) = Inr k
         \<and> set (ttr_diffs (map fl_round (scale (shift ttr_arg t0) (key_val k)))) = {Fin 1}
         \<and> Xtr h = (if nrm then scale2d Xtr_arg xscale else Xtr_arg)
         \<and> ttr h = map fl_round (scale (shift ttr_arg t0) (key_val k))
         \<and> tva h = scale (shift (tensorize tva_arg) t0) (key_val k)
         \<and> tte h = scale (shift (tensorize tte_arg) t0) (key_val k)
         \<and> Xscale h = xscale \<and> tshift h = t0 \<and> tscale h = key_val k
         \<and> dts h = find_dts (shift ttr_arg t0)"
proof -
  note sz = init_size_ok [OF assms]
  note u = init_sized [OF sz [THEN conjunct1] sz [THEN conjunct2, THEN conjunct1]
        sz [THEN conjunct2, THEN conjunct2], of nrm]
  have eq: "DataHandler_init nrm Xtr_arg ttr_arg Xva_arg tva_arg Xte_arg tte_arg = Inr h"
    by (rule assms)
  obtain xscale where xs: "torch_max (map fl_abs (concat Xtr_arg)) = Inr xscale"
    using eq unfolding u
    by (cases "torch_max (map fl_abs (concat Xtr_arg))") simp_all
  obtain t0 rest where t: "ttr_arg = t0 # rest"
    using eq unfolding u xs
    by (cases ttr_arg) simp_all
  have eq2: "(case py_max_key (find_dts (shift ttr_arg t0)) of
                Inl e \<Rightarrow> Inl e
              | Inr k \<Rightarrow>
                 if set (ttr_diffs (map fl_round (scale (shift ttr_arg t0) (key_val k)))) \<noteq> {Fin 1}
                 then Inl (ValueError (UnequalSpacing ttr_arg))
                 else Inr \<lparr>Xtr = (if nrm then scale2d Xtr_arg xscale else Xtr_arg),
                           Xva = (if nrm then scale2d (tensorize Xva_arg) xscale
                                  else tensorize Xva_arg),
                           Xte = (if nrm then scale2d (tensorize Xte_arg) xscale
                                  else tensorize Xte_arg),
                           ttr = map fl_round (scale (shift ttr_arg t0) (key_val k)),
                           tva = scale (shift (tensorize tva_arg) t0) (key_val k),
                           tte = scale (shift (tensorize tte_arg) t0) (key_val k),
                           Xscale = xscale, tshift = t0,
                           dts = find_dts (shift ttr_arg t0), tscale = key_val k\<rparr>) = Inr h"
    using eq unfolding u xs by (simp add: t)
  obtain k where k: "py_max_key (find_dts (shift ttr_arg t0)) = Inr k"
    using eq2 by (cases "py_max_key (find_dts (shift ttr_arg t0))") simp_all
  have d: "set (ttr_diffs (map fl_round (scale (shift ttr_arg t0) (key_val k)))) = {Fin 1}"
    using eq2 unfolding k
    by (cases "set (ttr_diffs (map fl_round (scale (shift ttr_arg t0) (key_val k)))) = {Fin 1}")
       simp_all
  have "\<lparr>Xtr = (if nrm then scale2d Xtr_arg xscale else Xtr_arg),
                           Xva = (if nrm then scale2d (tensorize Xva_arg) xscale
                                  else tensorize Xva_arg),
                           Xte = (if nrm then scale2d (tensorize Xte_arg) xscale
                                  else tensorize Xte_arg),
                           ttr = map fl_round (scale (shift ttr_arg t0) (key_val k)),
                           tva = scale (shift (tensorize tva_arg) t0) (key_val k),
                           tte = scale (shift (tensorize tte_arg) t0) (key_val k),
                           Xscale = xscale, tshift = t0,
                           dts = find_dts (shift ttr_arg t0), tscale = key_val k\<rparr> = h"
    using eq2 unfolding k by (simp only: d simp_thms if_False sum.case sum.inject)
  then have "Xtr h = (if nrm then scale2d Xtr_arg xscale else Xtr_arg)
         \<and> ttr h = map fl_round (scale (shift ttr_arg t0) (key_val k))
         \<and> tva h = scale (shift (tensorize tva_arg) t0) (key_val k)
         \<and> tte h = scale (shift (tensorize tte_arg) t0) (key_val k)
         \<and> Xscale h = xscale \<and> tshift h = t0 \<and> tscale h = key_val k
         \<and> dts h = find_dts (shift ttr_arg t0)"
    by auto
  with sz xs t k d show ?thesis by blast
qed

text \<open>
  C7: when the state matrix and the time vector of a split differ in their first
  dimension (10 rows against 9 entries, say), in the training, validation or test split,
  construction raises an assertion error whose message names the split and the two
  lengths; the checks run in this order and before any normalisation or time processing,
  so the outcome depends on the lengths only.
\<close>

theorem size_mismatch_raises_assertion:
  "(length Xtr_arg \<noteq> length ttr_arg \<longrightarrow>
      DataHandler_init nrm Xtr_arg ttr_arg Xva_arg tva_arg Xte_arg tte_arg
      = Inl (AssertionError (size_msg ''Xtr'' ''ttr'' (length Xtr_arg) (length ttr_arg))))
   \<and> (length Xtr_arg = length ttr_arg
        \<and> length (tensorize Xva_arg) \<noteq> length (tensorize tva_arg) \<longrightarrow>
      DataHandler_init nrm Xtr_arg ttr_arg Xva_arg tva_arg Xte_arg tte_arg
      = Inl (AssertionError (size_msg ''Xva'' ''tva''
               (length (tensorize Xva_arg)) (length (tensorize tva_arg)))))
   \<and> (length Xtr_arg = length ttr_arg
        \<and> length (tensorize Xva_arg) = length (tensorize tva_arg)
        \<and> length (tensorize Xte_arg) \<noteq> length (tensorize tte_arg) \<longrightarrow>
      DataHandler_init nrm Xtr_arg ttr_arg Xva_arg tva_arg Xte_arg tte_arg
      = Inl (AssertionError (size_msg ''Xte'' ''tte''
               (length (tensorize Xte_arg)) (length (tensorize tte_arg)))))"
  by (simp add: DataHandler_init_def tensorize_def)

theorem size_mismatch_raises_assertion_witness:
  "length (replicate 10 [Fin 1, Fin 2]) \<noteq> length (replicate 9 (Fin 0))
   \<and> DataHandler_init True (replicate 10 [Fin 1, Fin 2]) (replicate 9 (Fin 0)) None None None None
      = Inl (AssertionError (size_msg ''Xtr'' ''ttr'' 10 9))
   \<and> length (tensorize (Some (replicate 10 [Fin 1, Fin 2]))) \<noteq> length (tensorize (Some (replicate 9 (Fin 0))))
   \<and> DataHandler_init True [[Fin 1], [Fin 2]] [Fin 0, Fin 1]
        (Some (replicate 10 [Fin 1, Fin 2])) (Some (replicate 9 (Fin 0))) None None
      = Inl (AssertionError (size_msg ''Xva'' ''tva'' 10 9))
   \<and> DataHandler_init True [[Fin 1], [Fin 2]] [Fin 0, Fin 1] None None
        (Some (replicate 10 [Fin 1, Fin 2])) (Some (replicate 9 (Fin 0)))
      = Inl (AssertionError (size_msg ''Xte'' ''tte'' 10 9))"
  using size_mismatch_raises_assertion [of "replicate 10 [Fin 1, Fin 2]" "replicate 9 (Fin 0)" True None None None None]
    size_mismatch_raises_assertion [of "[[Fin 1], [Fin 2]]" "[Fin 0, Fin 1]" True "Some (replicate 10 [Fin 1, Fin 2])" "Some (replicate 9 (Fin 0))" None None]
    size_mismatch_raises_assertion [of "[[Fin 1], [Fin 2]]" "[Fin 0, Fin 1]" True None None "Some (replicate 10 [Fin 1, Fin 2])" "Some (replicate 9 (Fin 0))"]
  by (simp add: tensorize_def)

lemma size_msg_example:
  "size_msg ''Xtr'' ''ttr'' 10 9 =
     ''Expected '' @ [CHR 0x27] @ ''Xtr'' @ [CHR 0x27] @ '' and '' @ [CHR 0x27] @ ''ttr''
     @ [CHR 0x27] @ '' to have same length of 1st dimension, instead found 10 and 9''"
  by code_simp

text \<open>
  C10, as stated: every training input with exactly one sample raises the
  \<^verbatim>\<open>ValueError\<close> of \<^verbatim>\<open>max\<close> on the empty table of spacings. A one-row state matrix
  without columns fails earlier: \<^verbatim>\<open>torch.max\<close> of a tensor without elements raises
  \<^verbatim>\<open>RuntimeError\<close>. So does a validation split whose lengths differ, at its assertion.
\<close>

theorem one_sample_counterexample:
  "length [[]] = 1 \<and> length [Fin 0] = 1
   \<and> DataHandler_init True [[]] [Fin 0] None None None None = Inl RuntimeError
   \<and> length [[Fin 1]] = 1
   \<and> DataHandler_init True [[Fin 1]] [Fin 0] (Some [[Fin 1]]) None None None
       = Inl (AssertionError (size_msg ''Xva'' ''tva'' 1 0))"
  by (simp add: DataHandler_init_def)

text \<open>
  C10, amended: for every training input with exactly one sample whose state matrix has
  at least one entry, and validation and test splits of matching lengths, construction
  raises the \<^verbatim>\<open>ValueError\<close> of \<^verbatim>\<open>max\<close> on the empty table of spacings, not the error
  of the equal-spacing check.
\<close>

theorem one_sample_empty_max:
  assumes "length Xtr_arg = 1" and "length ttr_arg = 1" and "concat Xtr_arg \<noteq> []"
    and "length (tensorize Xva_arg) = length (tensorize tva_arg)"
    and "length (tensorize Xte_arg) = length (tensorize tte_arg)"
  shows "DataHandler_init nrm Xtr_arg ttr_arg Xva_arg tva_arg Xte_arg tte_arg
         = Inl (ValueError EmptyMax)"
proof -
  obtain t0 where t: "ttr_arg = [t0]"
    using assms(2) by (cases ttr_arg) auto
  obtain x xs where x: "map fl_abs (concat Xtr_arg) = x # xs"
    using assms(3) by (cases "concat Xtr_arg") auto
  have "find_dts (shift [t0] t0) = []"
    by (simp add: find_dts_def shift_def)
  then show ?thesis
    using assms(1,4,5) t x
    by (simp add: DataHandler_init_def Let_def)
qed

theorem one_sample_empty_max_witness:
  "DataHandler_init True [[Fin 1, Fin 2]] [Fin 7] None None None None = Inl (ValueError EmptyMax)"
  using one_sample_empty_max [of "[[Fin 1, Fin 2]]" "[Fin 7]" None None None None True]
  by (simp add: tensorize_def)

text \<open>
  C8: construction never fails because of the values, the order or the spacing of the
  validation and test time vectors. With lengths matching their state matrices, replacing
  them by any other vectors of the same lengths leaves every failure as it is, and on
  success they are stored shifted by the training offset and divided by the training time
  unit, with no rounding and no check.
\<close>

theorem validation_test_times_unconstrained:
  assumes "length (tensorize tva_arg) = length (tensorize Xva_arg)"
    and "length (tensorize tva_arg') = length (tensorize Xva_arg)"
    and "length (tensorize tte_arg) = length (tensorize Xte_arg)"
    and "length (tensorize tte_arg') = length (tensorize Xte_arg)"
  shows "(\<forall>e. DataHandler_init nrm Xtr_arg ttr_arg Xva_arg tva_arg Xte_arg tte_arg = Inl e
            \<longleftrightarrow> DataHandler_init nrm Xtr_arg ttr_arg Xva_arg tva_arg' Xte_arg tte_arg' = Inl e)
       \<and> (\<forall>h. DataHandler_init nrm Xtr_arg ttr_arg Xva_arg tva_arg Xte_arg tte_arg = Inr h
            \<longrightarrow> tva h = scale (shift (tensorize tva_arg) (tshift h)) (tscale h)
              \<and> tte h = scale (shift (tensorize tte_arg) (tshift h)) (tscale h))"
proof (intro conjI allI impI)
  fix e
  show "DataHandler_init nrm Xtr_arg ttr_arg Xva_arg tva_arg Xte_arg tte_arg = Inl e
        \<longleftrightarrow> DataHandler_init nrm Xtr_arg ttr_arg Xva_arg tva_arg' Xte_arg tte_arg' = Inl e"
  proof (cases "length Xtr_arg = length ttr_arg")
    case False
    then show ?thesis by (simp add: DataHandler_init_def)
  next
    case True
    show ?thesis
      unfolding init_sized [OF True assms(1) [symmetric] assms(3) [symmetric]]
        init_sized [OF True assms(2) [symmetric] assms(4) [symmetric]]
      by (simp split: sum.splits list.splits)
  qed
next
  fix h
  assume "DataHandler_init nrm Xtr_arg ttr_arg Xva_arg tva_arg Xte_arg tte_arg = Inr h"
  from init_success [OF this]
  obtain t0 k where "tva h = scale (shift (tensorize tva_arg) t0) (key_val k)"
    and "tte h = scale (shift (tensorize tte_arg) t0) (key_val k)"
    and "tshift h = t0" and "tscale h = key_val k"
    by blast
  then show "tva h = scale (shift (tensorize tva_arg) (tshift h)) (tscale h)"
    and "tte h = scale (shift (tensorize tte_arg) (tshift h)) (tscale h)"
    by simp_all
qed

theorem validation_test_times_unconstrained_witness:
  "length (tensorize (Some [Fin 50, NaN])) = length (tensorize (Some [[Fin 8], [Fin 2]]))
   \<and> length (tensorize (Some [PInf, Fin (- 7)])) = length (tensorize (Some [[Fin 8], [Fin 2]]))
   \<and> DataHandler_init False [[Fin 3], [Fin 1], [Fin 0]] [Fin 100, Fin 203, Fin 298]
        (Some [[Fin 8], [Fin 2]]) (Some [Fin 50, NaN]) None None
     = Inr \<lparr>Xtr = [[Fin 3], [Fin 1], [Fin 0]], Xva = [[Fin 8], [Fin 2]], Xte = [],
             ttr = [Fin 0, Fin 1, Fin 2], tva = [Fin (- 50 / 103), NaN], tte = [],
             Xscale = Fin 3, tshift = Fin 100,
             dts = [(KNum (Fin 103), 1), (KNum (Fin 95), 1)], tscale = Fin 103\<rparr>
   \<and> [Fin (- 50 / 103), NaN] = scale (shift (tensorize (Some [Fin 50, NaN])) (Fin 100)) (Fin 103)
   \<and> DataHandler_init False [[Fin 3], [Fin 1], [Fin 0]] [Fin 100, Fin 203, Fin 298]
        (Some [[Fin 8], [Fin 2]]) (Some [PInf, Fin (- 7)]) None None
     \<noteq> Inl (ValueError (UnequalSpacing [Fin 100, Fin 203, Fin 298]))"
proof -
  let ?X = "[[Fin 3], [Fin 1], [Fin 0]]"
  let ?t = "[Fin 100, Fin 203, Fin 298]"
  let ?Xva = "Some [[Fin 8], [Fin 2]]"
  let ?h = "\<lparr>Xtr = [[Fin 3], [Fin 1], [Fin 0]], Xva = [[Fin 8], [Fin 2]], Xte = [],
             ttr = [Fin 0, Fin 1, Fin 2], tva = [Fin (- 50 / 103), NaN], tte = [],
             Xscale = Fin 3, tshift = Fin 100,
             dts = [(KNum (Fin 103), 1), (KNum (Fin 95), 1)], tscale = Fin 103\<rparr>"
  have l1: "length (tensorize (Some [Fin 50, NaN])) = length (tensorize ?Xva)" by simp
  have l2: "length (tensorize (Some [PInf, Fin (- 7)])) = length (tensorize ?Xva)" by simp
  have l3: "length (tensorize (None :: fl list option)) = length (tensorize (None :: fl list list option))"
    by simp
  have ok: "DataHandler_init False ?X ?t ?Xva (Some [Fin 50, NaN]) None None = Inr ?h"
    by code_simp
  note u = validation_test_times_unconstrained [OF l1 l2 l3 l3, of False ?X ?t]
  from u [THEN conjunct2, THEN spec, THEN mp, OF ok]
  have a: "[Fin (- 50 / 103), NaN] = scale (shift (tensorize (Some [Fin 50, NaN])) (Fin 100)) (Fin 103)"
    by simp
  from u [THEN conjunct1, THEN spec, of "ValueError (UnequalSpacing ?t)"] ok
  have b: "DataHandler_init False ?X ?t ?Xva (Some [PInf, Fin (- 7)]) None None
           \<noteq> Inl (ValueError (UnequalSpacing ?t))"
    by simp
  from l1 l2 ok a b show ?thesis by blast
qed

lemma fl_sub_Fin_D: "fl_sub x y = Fin c \<Longrightarrow> \<exists>a b. x = Fin a \<and> y = Fin b \<and> c = a - b"
  by (cases x; cases y) simp_all

lemma first_time_zero: "fl_round (fl_div (fl_sub t t) s) = Fin b \<Longrightarrow> b = 0"
  by (cases t; cases s) (auto simp: round_half_even_def split: if_splits)

lemma length_ttr_diffs: "length (ttr_diffs t) = length t - 1"
  by (simp add: ttr_diffs_def)

lemma ttr_diffs_all_one:
  assumes "set (ttr_diffs t) = {Fin 1}" and "i < length t - 1"
  shows "fl_sub (t ! (i + 1)) (t ! i) = Fin 1"
proof -
  have "ttr_diffs t ! i \<in> set (ttr_diffs t)"
    using assms(2) by (simp add: length_ttr_diffs)
  then have "ttr_diffs t ! i = Fin 1"
    using assms(1) by simp
  then show ?thesis
    using assms(2) by (simp add: ttr_diffs_def diff_at_def)
qed

lemma consecutive_nth:
  assumes "set (ttr_diffs t) = {Fin 1}" and "t ! 0 = Fin 0"
  shows "i < length t \<Longrightarrow> t ! i = Fin (of_nat i)"
proof (induction i)
  case 0
  then show ?case using assms(2) by simp
next
  case (Suc i)
  then have "t ! i = Fin (of_nat i)" by simp
  moreover have "fl_sub (t ! (i + 1)) (t ! i) = Fin 1"
    using Suc.prems by (intro ttr_diffs_all_one [OF assms(1)]) simp
  ultimately obtain a where "t ! (i + 1) = Fin a" and "1 = a - of_nat i"
    using fl_sub_Fin_D by fastforce
  then show ?case by (simp add: algebra_simps)
qed

lemma consecutive_list:
  assumes "set (ttr_diffs t) = {Fin 1}" and "t ! 0 = Fin 0"
  shows "t = map (\<lambda>i. Fin (of_nat i)) [0..<length t]"
  by (rule nth_equalityI) (simp_all add: consecutive_nth [OF assms])

text \<open>
  C1: whenever construction succeeds, the stored training times are exactly
  \<open>0, 1, ..., n - 1\<close>, \<open>n\<close> the number of training samples; and when shifting, scaling and
  rounding have been reached (sizes match, the scale of the state matrix and the time
  unit exist) and the consecutive differences of the rounded times are not all 1,
  construction raises the \<^verbatim>\<open>ValueError\<close> that shows the given training times.
\<close>

theorem training_times_consecutive:
  "(\<forall>h. DataHandler_init nrm Xtr_arg ttr_arg Xva_arg tva_arg Xte_arg tte_arg = Inr h \<longrightarrow>
        ttr h = map (\<lambda>i. Fin (of_nat i)) [0..<length Xtr_arg])
   \<and> (\<forall>xscale k.
        length Xtr_arg = length ttr_arg
        \<and> length (tensorize Xva_arg) = length (tensorize tva_arg)
        \<and> length (tensorize Xte_arg) = length (tensorize tte_arg)
        \<and> torch_max (map fl_abs (concat Xtr_arg)) = Inr xscale
        \<and> ttr_arg \<noteq> []
        \<and> py_max_key (find_dts (shift ttr_arg (hd ttr_arg))) = Inr k
        \<and> set (ttr_diffs (map fl_round (scale (shift ttr_arg (hd ttr_arg)) (key_val k))))
            \<noteq> {Fin 1}
        \<longrightarrow> DataHandler_init nrm Xtr_arg ttr_arg Xva_arg tva_arg Xte_arg tte_arg
            = Inl (ValueError (UnequalSpacing ttr_arg)))"
proof (intro conjI allI impI)
  fix h
  assume "DataHandler_init nrm Xtr_arg ttr_arg Xva_arg tva_arg Xte_arg tte_arg = Inr h"
  from init_success [OF this]
  obtain t0 rest k where len: "length Xtr_arg = length ttr_arg"
    and t: "ttr_arg = t0 # rest"
    and d: "set (ttr_diffs (map fl_round (scale (shift ttr_arg t0) (key_val k)))) = {Fin 1}"
    and h: "ttr h = map fl_round (scale (shift ttr_arg t0) (key_val k))"
    by blast
  have d': "set (ttr_diffs (ttr h)) = {Fin 1}"
    using d h by simp
  have l: "length (ttr h) = length ttr_arg"
    by (simp add: h scale_def shift_def)
  have "ttr_diffs (ttr h) \<noteq> []"
  proof
    assume "ttr_diffs (ttr h) = []"
    then have "set (ttr_diffs (ttr h)) = {}" by simp
    with d' show False by simp
  qed
  then have "0 < length (ttr_diffs (ttr h))" by simp
  then have two: "0 < length (ttr h) - 1"
    by (simp only: length_ttr_diffs)
  have "fl_sub (ttr h ! (0 + 1)) (ttr h ! 0) = Fin 1"
    using two by (rule ttr_diffs_all_one [OF d'])
  then obtain b where b: "ttr h ! 0 = Fin b"
    using fl_sub_Fin_D by blast
  have "ttr h ! 0 = fl_round (fl_div (fl_sub t0 t0) (key_val k))"
    by (simp add: h t scale_def shift_def)
  with b have "b = 0"
    using first_time_zero by simp
  with b have "ttr h ! 0 = Fin 0" by simp
  from consecutive_list [OF d' this] l len
  show "ttr h = map (\<lambda>i. Fin (of_nat i)) [0..<length Xtr_arg]"
    by simp
next
  fix xscale k
  assume a: "length Xtr_arg = length ttr_arg
        \<and> length (tensorize Xva_arg) = length (tensorize tva_arg)
        \<and> length (tensorize Xte_arg) = length (tensorize tte_arg)
        \<and> torch_max (map fl_abs (concat Xtr_arg)) = Inr xscale
        \<and> ttr_arg \<noteq> []
        \<and> py_max_key (find_dts (shift ttr_arg (hd ttr_arg))) = Inr k
        \<and> set (ttr_diffs (map fl_round (scale (shift ttr_arg (hd ttr_arg)) (key_val k))))
            \<noteq> {Fin 1}"
  then have ne: "ttr_arg \<noteq> []"
    and k0: "py_max_key (find_dts (shift ttr_arg (hd ttr_arg))) = Inr k"
    and d0: "set (ttr_diffs (map fl_round (scale (shift ttr_arg (hd ttr_arg)) (key_val k))))
            \<noteq> {Fin 1}"
    and xs: "torch_max (map fl_abs (concat Xtr_arg)) = Inr xscale"
    by simp_all
  obtain t0 rest where t: "ttr_arg = t0 # rest"
    using ne by (cases ttr_arg) simp_all
  have k: "py_max_key (find_dts (shift (t0 # rest) t0)) = Inr k"
    using k0 unfolding t by simp
  have d: "set (ttr_diffs (map fl_round (scale (shift (t0 # rest) t0) (key_val k)))) \<noteq> {Fin 1}"
    using d0 unfolding t by simp
  have "DataHandler_init nrm Xtr_arg ttr_arg Xva_arg tva_arg Xte_arg tte_arg
        = Inl (ValueError (UnequalSpacing ttr_arg))"
    unfolding init_sized [OF a [THEN conjunct1] a [THEN conjunct2, THEN conjunct1]
        a [THEN conjunct2, THEN conjunct2, THEN conjunct1]] xs
    unfolding t
    by (simp only: sum.case list.case k d simp_thms if_True)
  then show "DataHandler_init nrm Xtr_arg ttr_arg Xva_arg tva_arg Xte_arg tte_arg
        = Inl (ValueError (UnequalSpacing ttr_arg))" .
qed

theorem training_times_consecutive_witness:
  "DataHandler_init True [[Fin 3, Fin (- 4)], [Fin 1, Fin 2], [Fin 0, Fin 2]]
       [Fin 100, Fin 203, Fin 298] None None None None
     = Inr \<lparr>Xtr = [[Fin (3 / 4), Fin (- 1)], [Fin (1 / 4), Fin (1 / 2)], [Fin 0, Fin (1 / 2)]],
             Xva = [], Xte = [], ttr = [Fin 0, Fin 1, Fin 2], tva = [], tte = [],
             Xscale = Fin 4, tshift = Fin 100,
             dts = [(KNum (Fin 103), 1), (KNum (Fin 95), 1)], tscale = Fin 103\<rparr>
   \<and> [Fin 0, Fin 1, Fin 2]
       = map (\<lambda>i. Fin (of_nat i)) [0..<length [[Fin 3, Fin (- 4)], [Fin 1, Fin 2], [Fin 0, Fin 2]]]
   \<and> set (ttr_diffs (map fl_round (scale (shift [Fin 0, Fin 1, Fin 3] (hd [Fin 0, Fin 1, Fin 3]))
                                       (key_val (KNum (Fin 1))))))
       \<noteq> {Fin 1}
   \<and> DataHandler_init True [[Fin 1], [Fin 2], [Fin 3]] [Fin 0, Fin 1, Fin 3] None None None None
     = Inl (ValueError (UnequalSpacing [Fin 0, Fin 1, Fin 3]))"
proof -
  let ?X = "[[Fin 3, Fin (- 4)], [Fin 1, Fin 2], [Fin 0, Fin 2]]"
  let ?t = "[Fin 100, Fin 203, Fin 298]"
  let ?h = "\<lparr>Xtr = [[Fin (3 / 4), Fin (- 1)], [Fin (1 / 4), Fin (1 / 2)], [Fin 0, Fin (1 / 2)]],
             Xva = [], Xte = [], ttr = [Fin 0, Fin 1, Fin 2], tva = [], tte = [],
             Xscale = Fin 4, tshift = Fin 100,
             dts = [(KNum (Fin 103), 1), (KNum (Fin 95), 1)], tscale = Fin 103\<rparr>"
  have ok: "DataHandler_init True ?X ?t None None None None = Inr ?h"
    by code_simp
  from training_times_consecutive [of True ?X ?t None None None None, THEN conjunct1,
      THEN spec, THEN mp, OF ok]
  have c: "[Fin 0, Fin 1, Fin 2] = map (\<lambda>i. Fin (of_nat i)) [0..<length ?X]"
    by simp
  let ?Y = "[[Fin 1], [Fin 2], [Fin 3]]"
  let ?u = "[Fin 0, Fin 1, Fin 3]"
  have m: "torch_max (map fl_abs (concat ?Y)) = Inr (Fin 3)"
    by code_simp
  have k: "py_max_key (find_dts (shift ?u (hd ?u))) = Inr (KNum (Fin 1))"
    by code_simp
  have d: "set (ttr_diffs (map fl_round (scale (shift ?u (hd ?u)) (key_val (KNum (Fin 1))))))
           \<noteq> {Fin 1}"
    by code_simp
  have "length ?Y = length ?u
        \<and> length (tensorize (None :: fl list list option)) = length (tensorize (None :: fl list option))
        \<and> length (tensorize (None :: fl list list option)) = length (tensorize (None :: fl list option))
        \<and> torch_max (map fl_abs (concat ?Y)) = Inr (Fin 3)
        \<and> ?u \<noteq> []
        \<and> py_max_key (find_dts (shift ?u (hd ?u))) = Inr (KNum (Fin 1))
        \<and> set (ttr_diffs (map fl_round (scale (shift ?u (hd ?u)) (key_val (KNum (Fin 1))))))
            \<noteq> {Fin 1}"
    using m k d by simp
  from training_times_consecutive [of True ?Y ?u None None None None, THEN conjunct2,
      THEN spec, THEN spec, THEN mp, OF this]
  have e: "DataHandler_init True ?Y ?u None None None None = Inl (ValueError (UnequalSpacing ?u))" .
  from ok c d e show ?thesis by blast
qed

lemma fl_max2_Fin_D:
  "fl_max2 x y = Fin c \<Longrightarrow> x \<noteq> NInf \<Longrightarrow> y \<noteq> NInf \<Longrightarrow>
   \<exists>a b. x = Fin a \<and> y = Fin b \<and> c = max a b"
  by (cases x; cases y) (auto simp: fl_max2_def split: if_splits)

lemma fl_max2_not_NInf: "x \<noteq> NInf \<Longrightarrow> y \<noteq> NInf \<Longrightarrow> fl_max2 x y \<noteq> NInf"
  by (simp add: fl_max2_def)

lemma fl_max2_Fin [simp]: "fl_max2 (Fin a) (Fin b) = Fin (max a b)"
  by (simp add: fl_max2_def max_def)

lemma foldl_max_Fin_D:
  "foldl fl_max2 x xs = Fin m \<Longrightarrow> \<forall>y\<in>set (x # xs). y \<noteq> NInf \<Longrightarrow>
   (\<forall>y\<in>set (x # xs). \<exists>a. y = Fin a \<and> a \<le> m) \<and> Fin m \<in> set (x # xs)"
proof (induction xs arbitrary: x)
  case Nil
  then show ?case by simp
next
  case (Cons y ys)
  from Cons.prems have f: "foldl fl_max2 (fl_max2 x y) ys = Fin m" by simp
  have n: "\<forall>z\<in>set (fl_max2 x y # ys). z \<noteq> NInf"
    using Cons.prems(2) by (simp add: fl_max2_not_NInf)
  note ih = Cons.IH [OF f n]
  from ih obtain c where c: "fl_max2 x y = Fin c" "c \<le> m" by auto
  then obtain a b where ab: "x = Fin a" "y = Fin b" "c = max a b"
    using fl_max2_Fin_D Cons.prems(2) by (metis list.set_intros(1,2))
  have "Fin m \<in> set (x # y # ys)"
  proof (cases "Fin m \<in> set ys")
    case True
    then show ?thesis by simp
  next
    case False
    with ih c have "m = c" by auto
    with ab show ?thesis by (auto simp: max_def)
  qed
  moreover have "\<forall>z\<in>set (x # y # ys). \<exists>a. z = Fin a \<and> a \<le> m"
    using ih ab c by auto
  ultimately show ?case by blast
qed

lemma foldl_max_Fin_I:
  "\<forall>y\<in>set (x # xs). \<exists>a. y = Fin a \<and> a \<le> m \<Longrightarrow> Fin m \<in> set (x # xs) \<Longrightarrow>
   foldl fl_max2 x xs = Fin m"
proof (induction xs arbitrary: x)
  case Nil
  then show ?case by simp
next
  case (Cons y ys)
  from Cons.prems(1) obtain a b where ab: "x = Fin a" "y = Fin b" "a \<le> m" "b \<le> m"
    by auto
  have 1: "\<forall>z\<in>set (Fin (max a b) # ys). \<exists>c. z = Fin c \<and> c \<le> m"
    using Cons.prems(1) ab by auto
  have 2: "Fin m \<in> set (Fin (max a b) # ys)"
    using Cons.prems(2) ab by (auto simp: max_def)
  show ?case
    using Cons.IH [OF 1 2] ab by simp
qed

lemma torch_max_Fin_D:
  assumes "torch_max xs = Inr (Fin m)" and "\<forall>y\<in>set xs. y \<noteq> NInf"
  shows "(\<forall>y\<in>set xs. \<exists>a. y = Fin a \<and> a \<le> m) \<and> Fin m \<in> set xs"
proof (cases xs)
  case Nil
  with assms(1) show ?thesis by simp
next
  case (Cons x ys)
  with assms(1) have "foldl fl_max2 x ys = Fin m" by simp
  from foldl_max_Fin_D [OF this] assms(2) Cons show ?thesis by blast
qed

lemma fl_abs_not_NInf: "fl_abs x \<noteq> NInf"
  by (cases x) simp_all

lemma torch_max_Fin_I:
  "torch_max xs = Inr (Fin m)"
  if "\<forall>y\<in>set xs. \<exists>a. y = Fin a \<and> a \<le> m" and "Fin m \<in> set xs"
proof (cases xs)
  case Nil
  then show ?thesis using that by simp
next
  case (Cons x ys)
  with that have "foldl fl_max2 x ys = Fin m" by (intro foldl_max_Fin_I) simp_all
  with Cons show ?thesis by simp
qed

lemma fl_abs_Fin_D: "fl_abs x = Fin a \<Longrightarrow> \<exists>b. x = Fin b \<and> a = \<bar>b\<bar>"
  by (cases x) auto

lemma concat_scale2d: "concat (scale2d X s) = map (\<lambda>x. fl_div x s) (concat X)"
  by (simp add: scale2d_def scale_def map_concat)

text \<open>
  C3, as stated: with normalisation enabled, the maximum absolute value of the stored
  training matrix is 1 for every training input. For a training matrix of zeros the scale
  is 0, every entry becomes \<open>0/0 = NaN\<close>, and the maximum absolute value is \<open>NaN\<close>; for a
  training matrix holding \<open>inf\<close> the scale is \<open>inf\<close> and \<open>inf/inf = NaN\<close> likewise.
\<close>

theorem normalized_max_abs_counterexample:
  "DataHandler_init True [[Fin 0, Fin 0], [Fin 0, Fin 0]] [Fin 0, Fin 1] None None None None
   = Inr \<lparr>Xtr = [[NaN, NaN], [NaN, NaN]], Xva = [], Xte = [], ttr = [Fin 0, Fin 1],
          tva = [], tte = [], Xscale = Fin 0, tshift = Fin 0,
          dts = [(KNum (Fin 1), 1)], tscale = Fin 1\<rparr>
   \<and> torch_max (map fl_abs (concat [[NaN, NaN], [NaN, NaN]])) = Inr NaN
   \<and> DataHandler_init True [[PInf], [Fin 1]] [Fin 0, Fin 1] None None None None
   = Inr \<lparr>Xtr = [[NaN], [Fin 0]], Xva = [], Xte = [], ttr = [Fin 0, Fin 1],
          tva = [], tte = [], Xscale = PInf, tshift = Fin 0,
          dts = [(KNum (Fin 1), 1)], tscale = Fin 1\<rparr>
   \<and> torch_max (map fl_abs (concat [[NaN], [Fin 0]])) = Inr NaN"
  by code_simp

text \<open>
  C3, amended: with normalisation enabled, whenever construction succeeds and the scale
  \<^verbatim>\<open>Xscale\<close> (the maximum absolute value of the given training matrix) is finite and not
  zero, the maximum absolute value of the stored training matrix is 1.
\<close>

theorem normalized_max_abs_one:
  assumes ok: "DataHandler_init True Xtr_arg ttr_arg Xva_arg tva_arg Xte_arg tte_arg = Inr h"
    and fin: "Xscale h = Fin s" and nz: "s \<noteq> 0"
  shows "torch_max (map fl_abs (concat (Xtr h))) = Inr (Fin 1)"
proof -
  from init_success [OF ok] fin
  have m: "torch_max (map fl_abs (concat Xtr_arg)) = Inr (Fin s)"
    and x: "Xtr h = scale2d Xtr_arg (Fin s)"
    by auto
  have "\<forall>y\<in>set (map fl_abs (concat Xtr_arg)). y \<noteq> NInf"
    by (simp add: fl_abs_not_NInf)
  note d0 = torch_max_Fin_D [OF m this]
  from d0 have d1: "\<forall>x\<in>set (concat Xtr_arg). \<exists>a. fl_abs x = Fin a \<and> a \<le> s"
    by simp
  from d0 have d2: "Fin s \<in> fl_abs ` set (concat Xtr_arg)"
    by simp
  have el: "\<exists>b. x = Fin b \<and> \<bar>b\<bar> \<le> s" if "x \<in> set (concat Xtr_arg)" for x
  proof -
    from that d1 obtain a where "fl_abs x = Fin a" "a \<le> s" by blast
    then show ?thesis using fl_abs_Fin_D by blast
  qed
  from d2 obtain x0 where x0: "x0 \<in> set (concat Xtr_arg)" "fl_abs x0 = Fin s" by force
  then obtain b0 where b0: "x0 = Fin b0" "s = \<bar>b0\<bar>" using fl_abs_Fin_D by blast
  with nz have pos: "0 < s" by simp
  have zs: "map fl_abs (concat (Xtr h)) = map (\<lambda>x. fl_abs (fl_div x (Fin s))) (concat Xtr_arg)"
    by (simp add: x concat_scale2d)
  have 1: "\<forall>y\<in>set (map (\<lambda>x. fl_abs (fl_div x (Fin s))) (concat Xtr_arg)). \<exists>a. y = Fin a \<and> a \<le> 1"
  proof
    fix y assume "y \<in> set (map (\<lambda>x. fl_abs (fl_div x (Fin s))) (concat Xtr_arg))"
    then obtain x where xx: "x \<in> set (concat Xtr_arg)" "y = fl_abs (fl_div x (Fin s))" by auto
    from el [OF xx(1)] obtain b where b: "x = Fin b" "\<bar>b\<bar> \<le> s" by blast
    have "y = Fin (\<bar>b\<bar> / s)" using xx(2) b pos by simp
    moreover have "\<bar>b\<bar> / s \<le> 1" using b pos by simp
    ultimately show "\<exists>a. y = Fin a \<and> a \<le> 1" by blast
  qed
  have "fl_abs (fl_div x0 (Fin s)) = Fin 1"
    using b0 pos by simp
  then have 2: "Fin 1 \<in> set (map (\<lambda>x. fl_abs (fl_div x (Fin s))) (concat Xtr_arg))"
    using x0(1) by force
  show ?thesis
    unfolding zs by (rule torch_max_Fin_I [OF 1 2])
qed

theorem normalized_max_abs_one_witness:
  "DataHandler_init True [[Fin 3, Fin (- 4)], [Fin 1, Fin 2], [Fin 0, Fin 2]]
       [Fin 100, Fin 203, Fin 298] None None None None
     = Inr \<lparr>Xtr = [[Fin (3 / 4), Fin (- 1)], [Fin (1 / 4), Fin (1 / 2)], [Fin 0, Fin (1 / 2)]],
             Xva = [], Xte = [], ttr = [Fin 0, Fin 1, Fin 2], tva = [], tte = [],
             Xscale = Fin 4, tshift = Fin 100,
             dts = [(KNum (Fin 103), 1), (KNum (Fin 95), 1)], tscale = Fin 103\<rparr>
   \<and> torch_max (map fl_abs
         (concat [[Fin (3 / 4), Fin (- 1)], [Fin (1 / 4), Fin (1 / 2)], [Fin 0, Fin (1 / 2)]]))
       = Inr (Fin 1)"
proof -
  let ?X = "[[Fin 3, Fin (- 4)], [Fin 1, Fin 2], [Fin 0, Fin 2]]"
  let ?t = "[Fin 100, Fin 203, Fin 298]"
  let ?h = "\<lparr>Xtr = [[Fin (3 / 4), Fin (- 1)], [Fin (1 / 4), Fin (1 / 2)], [Fin 0, Fin (1 / 2)]],
             Xva = [], Xte = [], ttr = [Fin 0, Fin 1, Fin 2], tva = [], tte = [],
             Xscale = Fin 4, tshift = Fin 100,
             dts = [(KNum (Fin 103), 1), (KNum (Fin 95), 1)], tscale = Fin 103\<rparr>"
  have ok: "DataHandler_init True ?X ?t None None None None = Inr ?h"
    by code_simp
  have s: "Xscale ?h = Fin 4" by simp
  have n: "(4 :: rat) \<noteq> 0" by simp
  from normalized_max_abs_one [OF ok s n] ok show ?thesis by simp
qed

lemma cnt_dts_incr: "cnt (dts_incr k tbl) k' = cnt tbl k' + (if k' = k then 1 else 0)"
  by (induction tbl) (auto simp: cnt_def)

lemma map_fst_dts_incr:
  "map fst (dts_incr k tbl) = (if k \<in> set (map fst tbl) then map fst tbl else map fst tbl @ [k])"
  by (induction tbl) (force split: if_splits)+

lemma keys_dts_incr: "fst ` set (dts_incr k tbl) = insert k (fst ` set tbl)"
proof -
  have "set (map fst (dts_incr k tbl)) = insert k (set (map fst tbl))"
    unfolding map_fst_dts_incr by auto
  then show ?thesis by simp
qed

lemma distinct_dts_incr: "distinct (map fst tbl) \<Longrightarrow> distinct (map fst (dts_incr k tbl))"
  unfolding map_fst_dts_incr by simp

lemma cnt_Nil [simp]: "cnt [] k = 0"
  by (simp add: cnt_def)

lemma count_table:
  "cnt (foldl (\<lambda>tbl k. dts_incr k tbl) tbl0 ks) k = cnt tbl0 k + count_list ks k"
  by (induction ks arbitrary: tbl0) (auto simp: cnt_dts_incr)

lemma keys_table:
  "fst ` set (foldl (\<lambda>tbl k. dts_incr k tbl) tbl0 ks) = fst ` set tbl0 \<union> set ks"
  by (induction ks arbitrary: tbl0) (auto simp: keys_dts_incr)

lemma distinct_table:
  "distinct (map fst tbl0) \<Longrightarrow> distinct (map fst (foldl (\<lambda>tbl k. dts_incr k tbl) tbl0 ks))"
  by (induction ks arbitrary: tbl0) (auto simp: distinct_dts_incr)

lemma length_spacings: "length (spacings t) = length t - 1"
  by (simp add: spacings_def)

lemma spacings_nth: "i < length t - 1 \<Longrightarrow> spacings t ! i = diff_at t i"
  by (simp add: spacings_def diff_at_def)

lemma spacings_ttr_diffs: "spacings t = ttr_diffs t"
  by (simp add: spacings_def ttr_diffs_def diff_at_def)

lemma diff_keys_diff_at: "diff_keys t = map (\<lambda>i. mk_key i (diff_at t i)) [0..<length t - 1]"
  by (simp add: diff_keys_def length_spacings spacings_nth)

lemma find_dts_table: "find_dts t = foldl (\<lambda>tbl k. dts_incr k tbl) [] (diff_keys t)"
  by (simp add: find_dts_def diff_keys_diff_at foldl_map)

lemma find_dts_entry:
  assumes "(k, c) \<in> set (find_dts t)"
  shows "k \<in> set (diff_keys t) \<and> c = count_list (diff_keys t) k"
proof -
  have "distinct (map fst (find_dts t))"
    unfolding find_dts_table by (rule distinct_table) simp
  with assms have "map_of (find_dts t) k = Some c" by simp
  then have "cnt (find_dts t) k = c" by (simp add: cnt_def)
  moreover have "cnt (find_dts t) k = count_list (diff_keys t) k"
    unfolding find_dts_table by (simp add: count_table)
  moreover have "k \<in> fst ` set (find_dts t)" using assms by force
  then have "k \<in> set (diff_keys t)"
    unfolding find_dts_table by (simp add: keys_table)
  ultimately show ?thesis by simp
qed

lemma find_dts_key:
  assumes "k \<in> set (diff_keys t)"
  shows "(k, count_list (diff_keys t) k) \<in> set (find_dts t)"
proof -
  have "k \<in> fst ` set (find_dts t)"
    unfolding find_dts_table using assms by (simp add: keys_table)
  then obtain c where c: "(k, c) \<in> set (find_dts t)" by force
  with find_dts_entry [OF c] show ?thesis by simp
qed

lemma foldl_max_step:
  "foldl max_step b xs \<in> set (b # xs) \<and> (\<forall>x\<in>set (b # xs). snd x \<le> snd (foldl max_step b xs))"
proof (induction xs arbitrary: b)
  case Nil
  show ?case by simp
next
  case (Cons x xs)
  from Cons.IH [of "max_step b x"] show ?case
    by (auto simp: max_step_def split: if_splits)
qed

lemma py_max_key_greatest:
  assumes "tbl \<noteq> []"
  shows "\<exists>k c. py_max_key tbl = Inr k \<and> (k, c) \<in> set tbl \<and> (\<forall>x\<in>set tbl. snd x \<le> c)"
proof -
  obtain b xs where t: "tbl = b # xs" using assms by (cases tbl) auto
  let ?r = "foldl max_step b xs"
  have "py_max_key tbl = Inr (fst ?r)" by (simp add: t)
  moreover have "(fst ?r, snd ?r) \<in> set tbl" using foldl_max_step [of b xs] t by simp
  moreover have "\<forall>x\<in>set tbl. snd x \<le> snd ?r" using foldl_max_step [of b xs] t by simp
  ultimately show ?thesis by blast
qed

lemma length_diff_keys: "length (diff_keys t) = length t - 1"
  by (simp add: diff_keys_def length_spacings)

lemma most_frequent_key:
  assumes "2 \<le> length t"
  shows "\<exists>k. py_max_key (find_dts t) = Inr k \<and> k \<in> set (diff_keys t)
             \<and> (\<forall>k'. count_list (diff_keys t) k' \<le> count_list (diff_keys t) k)"
proof -
  have "diff_keys t \<noteq> []"
    using assms length_diff_keys [of t] by (cases "diff_keys t") simp_all
  then obtain k0 where k0: "k0 \<in> set (diff_keys t)" by (cases "diff_keys t") auto
  from find_dts_key [OF k0] have "find_dts t \<noteq> []" by auto
  from py_max_key_greatest [OF this]
  obtain k c where k: "py_max_key (find_dts t) = Inr k" and kc: "(k, c) \<in> set (find_dts t)"
    and mx: "\<forall>x\<in>set (find_dts t). snd x \<le> c" by blast
  note e = find_dts_entry [OF kc]
  have "count_list (diff_keys t) k' \<le> count_list (diff_keys t) k" for k'
  proof (cases "k' \<in> set (diff_keys t)")
    case True
    from find_dts_key [OF True] mx have "count_list (diff_keys t) k' \<le> c" by force
    with e show ?thesis by simp
  next
    case False
    then show ?thesis by (simp add: count_list_0_iff)
  qed
  with k e show ?thesis by blast
qed

lemma count_list_map_KNum: "count_list (map KNum ds) (KNum d) = count_list ds d"
  by (induction ds) simp_all

lemma diff_keys_no_NaN:
  assumes "NaN \<notin> set (spacings t)"
  shows "diff_keys t = map KNum (spacings t)"
proof -
  have "mk_key i (spacings t ! i) = KNum (spacings t ! i)" if "i < length (spacings t)" for i
  proof -
    have "spacings t ! i \<in> set (spacings t)"
      using that by simp
    with assms have "spacings t ! i \<noteq> NaN" by metis
    then show ?thesis by (simp add: mk_key_def)
  qed
  then have "map (\<lambda>i. mk_key i (spacings t ! i)) [0..<length (spacings t)]
             = map (\<lambda>i. KNum (spacings t ! i)) [0..<length (spacings t)]"
    by simp
  also have "\<dots> = map KNum (map (\<lambda>i. spacings t ! i) [0..<length (spacings t)])"
    by simp
  also have "\<dots> = map KNum (spacings t)"
    by (simp only: map_nth)
  finally show ?thesis
    by (simp only: diff_keys_def)
qed

lemma shifted_times_shift: "t = t0 # rest \<Longrightarrow> shifted_times t = shift t t0"
  by (simp add: shifted_times_def shift_def)

text \<open>
  C6: for every training time vector with at least two samples, \<^verbatim>\<open>tscale\<close> is the
  most frequent difference between consecutive shifted training times, found by counting
  over all consecutive pairs. The table built by the loop holds every key of a difference
  with the number of its occurrences; the key that \<^verbatim>\<open>max\<close> takes from it is the key of
  one of the differences, and no key occurs more often among them; when no difference is
  \<open>NaN\<close> this reads on the differences themselves. Every handler that is constructed
  stores the value of this key as \<^verbatim>\<open>tscale\<close> and this table as \<^verbatim>\<open>dts\<close>, and a handler
  is constructed whenever the sizes match, the state matrix has a maximum and the times
  divided by this value round to consecutive integers.
\<close>

theorem tscale_most_frequent:
  fixes ttr_arg :: "fl list"
  defines "ts \<equiv> shifted_times ttr_arg"
  assumes two: "2 \<le> length ttr_arg"
  shows "\<exists>k. py_max_key (find_dts ts) = Inr k
           \<and> k \<in> set (diff_keys ts)
           \<and> (\<forall>k'. count_list (diff_keys ts) k' \<le> count_list (diff_keys ts) k)
           \<and> (\<forall>k'\<in>set (diff_keys ts). (k', count_list (diff_keys ts) k') \<in> set (find_dts ts))
           \<and> (NaN \<notin> set (spacings ts) \<longrightarrow>
                key_val k \<in> set (spacings ts)
                \<and> (\<forall>d. count_list (spacings ts) d \<le> count_list (spacings ts) (key_val k)))
           \<and> (\<forall>h. DataHandler_init nrm Xtr_arg ttr_arg Xva_arg tva_arg Xte_arg tte_arg = Inr h
                \<longrightarrow> tscale h = key_val k \<and> dts h = find_dts ts)
           \<and> (\<forall>xscale.
                length Xtr_arg = length ttr_arg
                \<and> length (tensorize Xva_arg) = length (tensorize tva_arg)
                \<and> length (tensorize Xte_arg) = length (tensorize tte_arg)
                \<and> torch_max (map fl_abs (concat Xtr_arg)) = Inr xscale
                \<and> set (ttr_diffs (map fl_round (scale ts (key_val k)))) = {Fin 1}
                \<longrightarrow> (\<exists>h. DataHandler_init nrm Xtr_arg ttr_arg Xva_arg tva_arg Xte_arg tte_arg
                            = Inr h
                         \<and> tscale h = key_val k \<and> dts h = find_dts ts))"
proof -
  obtain t0 rest where t: "ttr_arg = t0 # rest"
    using two by (cases ttr_arg) simp_all
  have ts: "ts = shift ttr_arg t0"
    unfolding ts_def by (rule shifted_times_shift [OF t])
  have "2 \<le> length ts" using two by (simp add: ts shift_def)
  from most_frequent_key [OF this]
  obtain k where k: "py_max_key (find_dts ts) = Inr k" and mem: "k \<in> set (diff_keys ts)"
    and mx: "\<forall>k'. count_list (diff_keys ts) k' \<le> count_list (diff_keys ts) k"
    by blast
  have tbl: "\<forall>k'\<in>set (diff_keys ts). (k', count_list (diff_keys ts) k') \<in> set (find_dts ts)"
    using find_dts_key by blast
  have plain: "key_val k \<in> set (spacings ts)
               \<and> (\<forall>d. count_list (spacings ts) d \<le> count_list (spacings ts) (key_val k))"
    if "NaN \<notin> set (spacings ts)"
  proof -
    note e = diff_keys_no_NaN [OF that]
    from mem obtain d0 where d0: "k = KNum d0" "d0 \<in> set (spacings ts)"
      unfolding e by auto
    have "count_list (spacings ts) d \<le> count_list (spacings ts) d0" for d
      using mx [THEN spec, of "KNum d"] unfolding e d0(1) count_list_map_KNum .
    with d0 show ?thesis by simp
  qed
  have stored: "tscale h = key_val k \<and> dts h = find_dts ts"
    if "DataHandler_init nrm Xtr_arg ttr_arg Xva_arg tva_arg Xte_arg tte_arg = Inr h" for h
  proof -
    from init_success [OF that]
    obtain t0' rest' k' where t': "ttr_arg = t0' # rest'"
      and k': "py_max_key (find_dts (shift ttr_arg t0')) = Inr k'"
      and h: "tscale h = key_val k'" "dts h = find_dts (shift ttr_arg t0')"
      by blast
    from t t' have "t0' = t0" by simp
    with k k' h ts show ?thesis by simp
  qed
  have built: "\<exists>h. DataHandler_init nrm Xtr_arg ttr_arg Xva_arg tva_arg Xte_arg tte_arg = Inr h
                  \<and> tscale h = key_val k \<and> dts h = find_dts ts"
    if a: "length Xtr_arg = length ttr_arg
           \<and> length (tensorize Xva_arg) = length (tensorize tva_arg)
           \<and> length (tensorize Xte_arg) = length (tensorize tte_arg)
           \<and> torch_max (map fl_abs (concat Xtr_arg)) = Inr xscale
           \<and> set (ttr_diffs (map fl_round (scale ts (key_val k)))) = {Fin 1}" for xscale
  proof -
    from a have xs: "torch_max (map fl_abs (concat Xtr_arg)) = Inr xscale"
      and d0: "set (ttr_diffs (map fl_round (scale ts (key_val k)))) = {Fin 1}"
      by simp_all
    have k1: "py_max_key (find_dts (shift (t0 # rest) t0)) = Inr k"
      using k unfolding ts t .
    have d1: "set (ttr_diffs (map fl_round (scale (shift (t0 # rest) t0) (key_val k)))) = {Fin 1}"
      using d0 unfolding ts t .
    have "\<exists>h. DataHandler_init nrm Xtr_arg ttr_arg Xva_arg tva_arg Xte_arg tte_arg = Inr h"
      unfolding init_sized [OF a [THEN conjunct1] a [THEN conjunct2, THEN conjunct1]
          a [THEN conjunct2, THEN conjunct2, THEN conjunct1]] xs
      unfolding t
      by (simp only: sum.case list.case k1 d1 simp_thms if_False sum.inject)
    then obtain h
      where h: "DataHandler_init nrm Xtr_arg ttr_arg Xva_arg tva_arg Xte_arg tte_arg = Inr h"
      by blast
    with stored [OF h] show ?thesis by blast
  qed
  from k mem mx tbl plain stored built show ?thesis by blast
qed

theorem tscale_most_frequent_witness:
  "2 \<le> length [Fin 10, Fin (131 / 10), Fin (161 / 10), Fin (191 / 10), Fin 22]
   \<and> spacings (shifted_times [Fin 10, Fin (131 / 10), Fin (161 / 10), Fin (191 / 10), Fin 22])
       = [Fin (31 / 10), Fin 3, Fin 3, Fin (29 / 10)]
   \<and> py_max_key
         (find_dts (shifted_times [Fin 10, Fin (131 / 10), Fin (161 / 10), Fin (191 / 10), Fin 22]))
       = Inr (KNum (Fin 3))
   \<and> count_list
         (spacings (shifted_times [Fin 10, Fin (131 / 10), Fin (161 / 10), Fin (191 / 10), Fin 22]))
         (Fin (31 / 10))
       \<le> count_list
         (spacings (shifted_times [Fin 10, Fin (131 / 10), Fin (161 / 10), Fin (191 / 10), Fin 22]))
         (Fin 3)
   \<and> DataHandler_init True [[Fin 1], [Fin (- 2)], [Fin 4], [Fin 3], [Fin 0]]
         [Fin 10, Fin (131 / 10), Fin (161 / 10), Fin (191 / 10), Fin 22] None None None None
       = Inr \<lparr>Xtr = [[Fin (1 / 4)], [Fin (- (1 / 2))], [Fin 1], [Fin (3 / 4)], [Fin 0]],
               Xva = [], Xte = [], ttr = [Fin 0, Fin 1, Fin 2, Fin 3, Fin 4],
               tva = [], tte = [], Xscale = Fin 4, tshift = Fin 10,
               dts = [(KNum (Fin (31 / 10)), 1), (KNum (Fin 3), 2), (KNum (Fin (29 / 10)), 1)],
               tscale = Fin 3\<rparr>"
proof -
  let ?X = "[[Fin 1], [Fin (- 2)], [Fin 4], [Fin 3], [Fin 0]]"
  let ?t = "[Fin 10, Fin (131 / 10), Fin (161 / 10), Fin (191 / 10), Fin 22]"
  let ?h = "\<lparr>Xtr = [[Fin (1 / 4)], [Fin (- (1 / 2))], [Fin 1], [Fin (3 / 4)], [Fin 0]],
               Xva = [], Xte = [], ttr = [Fin 0, Fin 1, Fin 2, Fin 3, Fin 4],
               tva = [], tte = [], Xscale = Fin 4, tshift = Fin 10,
               dts = [(KNum (Fin (31 / 10)), 1), (KNum (Fin 3), 2), (KNum (Fin (29 / 10)), 1)],
               tscale = Fin 3\<rparr>"
  have two: "2 \<le> length ?t" by simp
  have sp: "spacings (shifted_times ?t) = [Fin (31 / 10), Fin 3, Fin 3, Fin (29 / 10)]"
    by code_simp
  have k: "py_max_key (find_dts (shifted_times ?t)) = Inr (KNum (Fin 3))"
    by code_simp
  have n: "NaN \<notin> set (spacings (shifted_times ?t))"
    unfolding sp by simp
  have m: "torch_max (map fl_abs (concat ?X)) = Inr (Fin 4)"
    by code_simp
  have r: "set (ttr_diffs (map fl_round (scale (shifted_times ?t) (key_val (KNum (Fin 3))))))
           = {Fin 1}"
    by code_simp
  from tscale_most_frequent [OF two, of True ?X None None None None]
  obtain k0 where a: "py_max_key (find_dts (shifted_times ?t)) = Inr k0"
    and b: "NaN \<notin> set (spacings (shifted_times ?t)) \<longrightarrow>
            key_val k0 \<in> set (spacings (shifted_times ?t))
            \<and> (\<forall>d. count_list (spacings (shifted_times ?t)) d
                    \<le> count_list (spacings (shifted_times ?t)) (key_val k0))"
    and c: "\<forall>xscale.
              length ?X = length ?t
              \<and> length (tensorize (None :: fl list list option))
                  = length (tensorize (None :: fl list option))
              \<and> length (tensorize (None :: fl list list option))
                  = length (tensorize (None :: fl list option))
              \<and> torch_max (map fl_abs (concat ?X)) = Inr xscale
              \<and> set (ttr_diffs (map fl_round (scale (shifted_times ?t) (key_val k0)))) = {Fin 1}
              \<longrightarrow> (\<exists>h. DataHandler_init True ?X ?t None None None None = Inr h
                       \<and> tscale h = key_val k0 \<and> dts h = find_dts (shifted_times ?t))"
    by blast
  from a k have k0: "k0 = KNum (Fin 3)" by simp
  from b n k0 have cn: "count_list (spacings (shifted_times ?t)) (Fin (31 / 10))
                        \<le> count_list (spacings (shifted_times ?t)) (Fin 3)"
    by simp
  have "length ?X = length ?t
        \<and> length (tensorize (None :: fl list list option))
            = length (tensorize (None :: fl list option))
        \<and> length (tensorize (None :: fl list list option))
            = length (tensorize (None :: fl list option))
        \<and> torch_max (map fl_abs (concat ?X)) = Inr (Fin 4)
        \<and> set (ttr_diffs (map fl_round (scale (shifted_times ?t) (key_val k0)))) = {Fin 1}"
    using m r unfolding k0 by simp
  with c obtain h where h: "DataHandler_init True ?X ?t None None None None = Inr h"
    and "tscale h = key_val k0" and "dts h = find_dts (shifted_times ?t)"
    by blast
  have "DataHandler_init True ?X ?t None None None None = Inr ?h"
    by code_simp
  with two sp k cn show ?thesis by blast
qed

end
